theory Spec2Isabelle
  imports Complex_Main
begin

section \<open>makeHouse.js: a room whose east and south walls carry a window\<close>

text \<open>
  The source builds a scene graph of boxes. A JavaScript number is modelled as a
  \<^typ>\<open>real\<close>: \<open>Math.min\<close>, \<open>Math.max\<close> and the comparisons against \<open>0.001\<close> are the
  ones of the source, the arithmetic is exact (rounding and NaN are left out).
  A material is an opaque reference handed in by the caller, a type variable here.
\<close>

subsection \<open>Data\<close>

text \<open>A point or vector \<open>{x, y, z}\<close>.\<close>

record vec3 =
  x :: real
  y :: real
  z :: real

text \<open>
  A mesh over \<open>BoxGeometry(sx, sy, sz)\<close>: the box is centred at \<open>position\<close> and has
  the three given edge lengths.
\<close>

record 'm mesh =
  sx :: real
  sy :: real
  sz :: real
  material :: 'm
  position :: vec3
  castShadow :: bool
  receiveShadow :: bool

text \<open>A node of the scene graph: a mesh, or a group with a position and children.\<close>

datatype 'm object3d =
  Mesh "'m mesh"
| Group vec3 "'m object3d list"

text \<open>A window of the configuration: \<open>{ w, h, sill, center }\<close>.\<close>

record win =
  w :: real
  h :: real
  sill :: real
  center :: real

text \<open>The argument object of \<open>buildWallWithWindow\<close>.\<close>

record wall_args =
  axis :: string
  L :: real
  H :: real
  T :: real
  center :: vec3
  winW :: real
  winH :: real
  sill :: real
  offsetAlong :: real
  outwardNormal :: vec3

text \<open>The argument object of \<open>makeHouse\<close>.\<close>

record 'm config =
  width :: real
  depth :: real
  height :: real
  wallT :: real
  floorT :: real
  winEast :: win
  winSouth :: win
  wallMat :: 'm
  floorMat :: 'm
  ceilMat :: 'm
  glassMat :: 'm

text \<open>The defaults of the destructured parameter; the four materials are the caller's.\<close>

definition defaults :: "'m \<Rightarrow> 'm \<Rightarrow> 'm \<Rightarrow> 'm \<Rightarrow> 'm config" where
  "defaults wm fm cm gm =
     \<lparr>width = 4, depth = 6, height = 3.0, wallT = 0.15, floorT = 0.12,
      winEast = \<lparr>w = 2.4, h = 1.2, sill = 0.9, center = 0.0\<rparr>,
      winSouth = \<lparr>w = 3.0, h = 1.4, sill = 0.7, center = 0.0\<rparr>,
      wallMat = wm, floorMat = fm, ceilMat = cm, glassMat = gm\<rparr>"

subsection \<open>Helpers\<close>

definition vec :: "real \<Rightarrow> real \<Rightarrow> real \<Rightarrow> vec3" where
  "vec a b c = \<lparr>x = a, y = b, z = c\<rparr>"

text \<open>\<open>makeBox\<close>: a new mesh sits at the origin; both shadow flags are switched on.\<close>

definition makeBox :: "real \<Rightarrow> real \<Rightarrow> real \<Rightarrow> 'm \<Rightarrow> 'm mesh" where
  "makeBox ax ay az mat =
     \<lparr>sx = ax, sy = ay, sz = az, material = mat, position = vec 0 0 0,
      castShadow = True, receiveShadow = True\<rparr>"

text \<open>\<open>box.position.set(a, b, c)\<close>.\<close>

definition position_set :: "real \<Rightarrow> real \<Rightarrow> real \<Rightarrow> 'm mesh \<Rightarrow> 'm mesh" where
  "position_set a b c m = m\<lparr>position := vec a b c\<rparr>"

subsection \<open>buildWallWithWindow\<close>

text \<open>
  The clamp of the three window parameters (the source reassigns \<open>winW\<close>, \<open>winH\<close>
  and \<open>sill\<close>; every later line reads the reassigned values).
\<close>

definition clamp :: "wall_args \<Rightarrow> wall_args" where
  "clamp a =
     (let winW' = min (winW a) (L a - 0.2);
          winH' = min (winH a) (H a - 0.2);
          sill' = max 0.0 (min (sill a) (H a - winH' - 0.05))
      in a\<lparr>winW := winW', winH := winH', sill := sill'\<rparr>)"

text \<open>The local constants, read on the arguments after the clamp.\<close>

definition yBottom :: "wall_args \<Rightarrow> real" where
  "yBottom a = - H a / 2"

definition yTop :: "wall_args \<Rightarrow> real" where
  "yTop a = H a / 2"

definition yWinBottom :: "wall_args \<Rightarrow> real" where
  "yWinBottom a = yBottom a + sill a"

definition yWinTop :: "wall_args \<Rightarrow> real" where
  "yWinTop a = yWinBottom a + winH a"

definition halfL :: "wall_args \<Rightarrow> real" where
  "halfL a = L a / 2"

definition winCenter :: "wall_args \<Rightarrow> real" where
  "winCenter a = offsetAlong a"

definition winLeft :: "wall_args \<Rightarrow> real" where
  "winLeft a = winCenter a - winW a / 2"

definition winRight :: "wall_args \<Rightarrow> real" where
  "winRight a = winCenter a + winW a / 2"

definition lowerH :: "wall_args \<Rightarrow> real" where
  "lowerH a = yWinBottom a - yBottom a"

definition upperH :: "wall_args \<Rightarrow> real" where
  "upperH a = yTop a - yWinTop a"

definition leftW :: "wall_args \<Rightarrow> real" where
  "leftW a = winLeft a + halfL a"

definition rightW :: "wall_args \<Rightarrow> real" where
  "rightW a = halfL a - winRight a"

text \<open>The omission threshold of the four \<open>if\<close> blocks.\<close>

definition eps :: real where
  "eps = 0.001"

text \<open>
  The four \<open>if\<close> blocks, each the box it adds to the wall group or nothing.
  The Upper block sets the position twice; the second assignment overwrites \<open>y\<close>.
\<close>

definition lowerBox :: "'m \<Rightarrow> wall_args \<Rightarrow> 'm mesh option" where
  "lowerBox wm a =
     (if lowerH a > eps then
        Some (position_set 0 (yBottom a + lowerH a / 2) 0
               (makeBox (if axis a = ''x'' then L a else T a)
                        (lowerH a)
                        (if axis a = ''x'' then T a else L a) wm))
      else None)"

definition upperBox :: "'m \<Rightarrow> wall_args \<Rightarrow> 'm mesh option" where
  "upperBox wm a =
     (if upperH a > eps then
        (let box = position_set 0 (yWinTop a + upperH a / 2 - y (center a)) 0
                     (makeBox (if axis a = ''x'' then L a else T a)
                              (upperH a)
                              (if axis a = ''x'' then T a else L a) wm)
         in Some (box\<lparr>position := (position box)\<lparr>y := yWinTop a + upperH a / 2\<rparr>\<rparr>))
      else None)"

definition leftBox :: "'m \<Rightarrow> wall_args \<Rightarrow> 'm mesh option" where
  "leftBox wm a =
     (if leftW a > eps then
        (let box = makeBox (if axis a = ''x'' then leftW a else T a)
                           (winH a)
                           (if axis a = ''x'' then T a else leftW a) wm
         in Some (if axis a = ''x''
                  then position_set (- halfL a + leftW a / 2) (yWinBottom a + winH a / 2) 0 box
                  else position_set 0 (yWinBottom a + winH a / 2) (- halfL a + leftW a / 2) box))
      else None)"

definition rightBox :: "'m \<Rightarrow> wall_args \<Rightarrow> 'm mesh option" where
  "rightBox wm a =
     (if rightW a > eps then
        (let box = makeBox (if axis a = ''x'' then rightW a else T a)
                           (winH a)
                           (if axis a = ''x'' then T a else rightW a) wm
         in Some (if axis a = ''x''
                  then position_set (halfL a - rightW a / 2) (yWinBottom a + winH a / 2) 0 box
                  else position_set 0 (yWinBottom a + winH a / 2) (halfL a - rightW a / 2) box))
      else None)"

text \<open>The glass pane, always added, with \<open>castShadow\<close> switched off afterwards.\<close>

definition glassT :: real where
  "glassT = 0.02"

definition glass :: "'m \<Rightarrow> wall_args \<Rightarrow> 'm mesh" where
  "glass gm a =
     (let box = makeBox (if axis a = ''x'' then winW a else glassT)
                        (winH a)
                        (if axis a = ''x'' then glassT else winW a) gm;
          box = (if axis a = ''x''
                 then position_set (winCenter a) (yWinBottom a + winH a / 2)
                        (z (outwardNormal a) * (T a / 2 - glassT / 2)) box
                 else position_set (x (outwardNormal a) * (T a / 2 - glassT / 2))
                        (yWinBottom a + winH a / 2) (winCenter a) box)
      in box\<lparr>castShadow := False\<rparr>)"

text \<open>The structural boxes in the order the source adds them.\<close>

definition opt_list :: "'a option \<Rightarrow> 'a list" where
  "opt_list v = (case v of None \<Rightarrow> [] | Some b \<Rightarrow> [b])"

definition segments :: "'m \<Rightarrow> wall_args \<Rightarrow> 'm mesh list" where
  "segments wm a =
     opt_list (lowerBox wm a) @ opt_list (upperBox wm a) @
     opt_list (leftBox wm a) @ opt_list (rightBox wm a)"

text \<open>
  The wall group: positioned at \<open>center\<close>, children the emitted boxes and then the
  glass. The source resets the position to the origin and copies \<open>center\<close> again
  at the end.
\<close>

definition wallGroup :: "'m \<Rightarrow> 'm \<Rightarrow> wall_args \<Rightarrow> 'm object3d" where
  "wallGroup wm gm args =
     (let a = clamp args;
          pos = vec (x (center a)) (y (center a)) (z (center a));
          kids = map Mesh (segments wm a) @ [Mesh (glass gm a)];
          pos = vec 0 0 0;
          pos = vec (x (center a)) (y (center a)) (z (center a))
      in Group pos kids)"

text \<open>\<open>buildWallWithWindow\<close> appends the wall group to the children of \<open>g\<close>.\<close>

definition buildWallWithWindow ::
  "'m \<Rightarrow> 'm \<Rightarrow> wall_args \<Rightarrow> 'm object3d list \<Rightarrow> 'm object3d list" where
  "buildWallWithWindow wm gm args g = g @ [wallGroup wm gm args]"

subsection \<open>makeHouse\<close>

definition floorBox :: "'m config \<Rightarrow> 'm mesh" where
  "floorBox c =
     position_set 0 (floorT c / 2) 0
       (makeBox (width c - wallT c * 2) (floorT c) (depth c - wallT c * 2) (floorMat c))"

definition ceilingBox :: "'m config \<Rightarrow> 'm mesh" where
  "ceilingBox c =
     (position_set 0 (height c + 0.04) 0 (makeBox (width c) 0.08 (depth c) (ceilMat c)))
       \<lparr>castShadow := True, receiveShadow := True\<rparr>"

definition wallY :: "'m config \<Rightarrow> real" where
  "wallY c = height c / 2"

definition westWall :: "'m config \<Rightarrow> 'm mesh" where
  "westWall c =
     position_set (- width c / 2 + wallT c / 2) (wallY c) 0
       (makeBox (wallT c) (height c) (depth c) (wallMat c))"

definition northWall :: "'m config \<Rightarrow> 'm mesh" where
  "northWall c =
     position_set 0 (wallY c) (- depth c / 2 + wallT c / 2)
       (makeBox (width c) (height c) (wallT c) (wallMat c))"

definition eastArgs :: "'m config \<Rightarrow> wall_args" where
  "eastArgs c =
     \<lparr>axis = ''z'', L = depth c, H = height c, T = wallT c,
      center = vec (width c / 2 - wallT c / 2) (wallY c) 0,
      winW = w (winEast c), winH = h (winEast c), sill = win.sill (winEast c),
      offsetAlong = win.center (winEast c),
      outwardNormal = vec 1 0 0\<rparr>"

definition southArgs :: "'m config \<Rightarrow> wall_args" where
  "southArgs c =
     \<lparr>axis = ''x'', L = width c, H = height c, T = wallT c,
      center = vec 0 (wallY c) (depth c / 2 - wallT c / 2),
      winW = w (winSouth c), winH = h (winSouth c), sill = win.sill (winSouth c),
      offsetAlong = win.center (winSouth c),
      outwardNormal = vec 0 0 1\<rparr>"

definition makeHouse :: "'m config \<Rightarrow> 'm object3d" where
  "makeHouse c =
     (let g = [];
          g = g @ [Mesh (floorBox c)];
          g = g @ [Mesh (ceilingBox c)];
          g = g @ [Mesh (westWall c)];
          g = g @ [Mesh (northWall c)];
          g = buildWallWithWindow (wallMat c) (glassMat c) (eastArgs c) g;
          g = buildWallWithWindow (wallMat c) (glassMat c) (southArgs c) g
      in Group (vec 0 0 0) g)"

subsection \<open>The face of a wall\<close>

text \<open>
  What the properties below speak about. A wall is seen along its thickness: a box
  shows a rectangle in the plane of the long axis (\<open>x\<close> when \<open>axis\<close> is \<open>"x"\<close>,
  \<open>z\<close> otherwise, as the source's conditionals decide) and the height.
\<close>

record rect =
  lo_a :: real
  hi_a :: real
  lo_y :: real
  hi_y :: real

definition along :: "string \<Rightarrow> vec3 \<Rightarrow> real" where
  "along ax v = (if ax = ''x'' then x v else z v)"

definition alongSize :: "string \<Rightarrow> 'm mesh \<Rightarrow> real" where
  "alongSize ax m = (if ax = ''x'' then sx m else sz m)"

definition faceRect :: "string \<Rightarrow> 'm mesh \<Rightarrow> rect" where
  "faceRect ax m =
     \<lparr>lo_a = along ax (position m) - alongSize ax m / 2,
      hi_a = along ax (position m) + alongSize ax m / 2,
      lo_y = y (position m) - sy m / 2,
      hi_y = y (position m) + sy m / 2\<rparr>"

text \<open>The window opening and the whole face, in wall-local coordinates.\<close>

definition aperture :: "wall_args \<Rightarrow> rect" where
  "aperture a = \<lparr>lo_a = winLeft a, hi_a = winRight a, lo_y = yWinBottom a, hi_y = yWinTop a\<rparr>"

definition face :: "wall_args \<Rightarrow> rect" where
  "face a = \<lparr>lo_a = - halfL a, hi_a = halfL a, lo_y = yBottom a, hi_y = yTop a\<rparr>"

definition area :: "rect \<Rightarrow> real" where
  "area r = (hi_a r - lo_a r) * (hi_y r - lo_y r)"

text \<open>The area two rectangles share.\<close>

definition overlap :: "rect \<Rightarrow> rect \<Rightarrow> real" where
  "overlap r s =
     max 0 (min (hi_a r) (hi_a s) - max (lo_a r) (lo_a s)) *
     max 0 (min (hi_y r) (hi_y s) - max (lo_y r) (lo_y s))"

fun noOverlap :: "rect list \<Rightarrow> bool" where
  "noOverlap [] = True"
| "noOverlap (r # rs) = ((\<forall>s \<in> set rs. overlap r s = 0) \<and> noOverlap rs)"

text \<open>\<open>inside r s\<close>: \<open>r\<close> is a rectangle (not inverted) within \<open>s\<close>.\<close>

definition inside :: "rect \<Rightarrow> rect \<Rightarrow> bool" where
  "inside r s \<longleftrightarrow>
     lo_a s \<le> lo_a r \<and> lo_a r \<le> hi_a r \<and> hi_a r \<le> hi_a s \<and>
     lo_y s \<le> lo_y r \<and> lo_y r \<le> hi_y r \<and> hi_y r \<le> hi_y s"

text \<open>\<open>near e r p q\<close>: the point \<open>(p, q)\<close> is in \<open>r\<close> grown by \<open>e\<close> on every side.\<close>

definition near :: "real \<Rightarrow> rect \<Rightarrow> real \<Rightarrow> real \<Rightarrow> bool" where
  "near e r p q \<longleftrightarrow>
     lo_a r - e \<le> p \<and> p \<le> hi_a r + e \<and> lo_y r - e \<le> q \<and> q \<le> hi_y r + e"

text \<open>The opening followed by the rectangles of the boxes the wall really has.\<close>

definition pieces :: "'m \<Rightarrow> wall_args \<Rightarrow> rect list" where
  "pieces wm a = aperture a # map (faceRect (axis a)) (segments wm a)"

text \<open>The area left uncovered by the blocks that were skipped.\<close>

definition gap :: "wall_args \<Rightarrow> real" where
  "gap a =
     (if lowerH a > eps then 0 else L a * lowerH a) +
     (if upperH a > eps then 0 else L a * upperH a) +
     (if leftW a > eps then 0 else leftW a * winH a) +
     (if rightW a > eps then 0 else rightW a * winH a)"

text \<open>
  The tiling of the face: every piece is a rectangle within the face, no two pieces
  share area, every point of the face is within \<open>eps\<close> of a piece, and the areas
  add up to \<open>L * H\<close> less a gap of at most \<open>eps\<close> times the lengths of the skipped
  strips.
\<close>

definition tiles :: "'m \<Rightarrow> wall_args \<Rightarrow> bool" where
  "tiles wm a \<longleftrightarrow>
     (\<forall>r \<in> set (pieces wm a). inside r (face a)) \<and>
     noOverlap (pieces wm a) \<and>
     (\<forall>p q. near 0 (face a) p q \<longrightarrow> (\<exists>r \<in> set (pieces wm a). near eps r p q)) \<and>
     sum_list (map area (pieces wm a)) + gap a = L a * H a \<and>
     0 \<le> gap a \<and> gap a \<le> eps * (L a + 2 * winH a)"

text \<open>The rectangle each of the four blocks draws when it runs.\<close>

definition lowerRect :: "wall_args \<Rightarrow> rect" where
  "lowerRect a = \<lparr>lo_a = - halfL a, hi_a = halfL a, lo_y = yBottom a, hi_y = yWinBottom a\<rparr>"

definition upperRect :: "wall_args \<Rightarrow> rect" where
  "upperRect a = \<lparr>lo_a = - halfL a, hi_a = halfL a, lo_y = yWinTop a, hi_y = yTop a\<rparr>"

definition leftRect :: "wall_args \<Rightarrow> rect" where
  "leftRect a = \<lparr>lo_a = - halfL a, hi_a = winLeft a, lo_y = yWinBottom a, hi_y = yWinTop a\<rparr>"

definition rightRect :: "wall_args \<Rightarrow> rect" where
  "rightRect a = \<lparr>lo_a = winRight a, hi_a = halfL a, lo_y = yWinBottom a, hi_y = yWinTop a\<rparr>"

text \<open>
  Arguments on which the window is a rectangle within the wall, with the bounds the
  clamp gives.
\<close>

definition fits :: "wall_args \<Rightarrow> bool" where
  "fits a \<longleftrightarrow>
     0 \<le> winW a \<and> 0 \<le> winH a \<and> winH a \<le> H a - 0.2 \<and>
     0 \<le> sill a \<and> sill a \<le> H a - winH a - 0.05 \<and>
     - halfL a \<le> winLeft a \<and> winRight a \<le> halfL a"

text \<open>Window parameters already within the three bounds of the clamp.\<close>

definition validWindow :: "wall_args \<Rightarrow> bool" where
  "validWindow a \<longleftrightarrow>
     winW a \<le> L a - 0.2 \<and> winH a \<le> H a - 0.2 \<and>
     0 \<le> sill a \<and> sill a \<le> H a - winH a - 0.05"

text \<open>The default house, with the unit value for each material.\<close>

definition house0 :: "unit config" where
  "house0 = defaults () () () ()"

section \<open>Properties\<close>

lemmas locals =
  yBottom_def yTop_def yWinBottom_def yWinTop_def halfL_def winCenter_def winLeft_def
  winRight_def lowerH_def upperH_def leftW_def rightW_def

lemmas boxes = makeBox_def position_set_def vec_def faceRect_def along_def alongSize_def

lemmas rects = aperture_def face_def lowerRect_def upperRect_def leftRect_def rightRect_def

lemmas house = house0_def defaults_def southArgs_def eastArgs_def wallY_def vec_def

subsection \<open>The clamp\<close>

lemma clamp_fields:
  "winW (clamp a) = min (winW a) (L a - 0.2)"
  "winH (clamp a) = min (winH a) (H a - 0.2)"
  "sill (clamp a) = max 0 (min (sill a) (H a - min (winH a) (H a - 0.2) - 0.05))"
  "axis (clamp a) = axis a" "L (clamp a) = L a" "H (clamp a) = H a" "T (clamp a) = T a"
  "center (clamp a) = center a" "offsetAlong (clamp a) = offsetAlong a"
  "outwardNormal (clamp a) = outwardNormal a"
  by (simp_all add: clamp_def Let_def)

text \<open>
  C2. For every argument object the wall is built, and it is the wall of the same
  arguments with \<open>winW\<close> replaced by \<open>min winW (L - 0.2)\<close>, \<open>winH\<close> by
  \<open>min winH (H - 0.2)\<close> and \<open>sill\<close> by \<open>max 0 (min sill (H - winH' - 0.05))\<close>.
  The function has no failing branch: the source has no \<open>throw\<close>, and the model is a
  total function returning the group.
\<close>

theorem clamp_exact:
  "wallGroup wm gm a =
     (let a' = a\<lparr>winW := min (winW a) (L a - 0.2),
                  winH := min (winH a) (H a - 0.2),
                  sill := max 0 (min (sill a) (H a - min (winH a) (H a - 0.2) - 0.05))\<rparr>
      in Group (center a) (map Mesh (segments wm a') @ [Mesh (glass gm a')]))"
  by (simp add: wallGroup_def clamp_def Let_def vec_def)

text \<open>
  C3. After the clamp the sill is not negative, sill plus window height is at most
  the wall height, and the window width is at most the wall length. This holds for
  every input; that \<open>L\<close> and \<open>H\<close> are positive is not needed.
\<close>

theorem clamp_invariants:
  "0 \<le> sill (clamp a) \<and> sill (clamp a) + winH (clamp a) \<le> H a \<and> winW (clamp a) \<le> L a"
  by (simp add: clamp_fields min_def max_def)

text \<open>
  C8. Clamping twice is clamping once, and window parameters that are already within
  the three bounds of the clamp are left as they are.
\<close>

theorem clamp_idempotent:
  "clamp (clamp a) = clamp a \<and> (validWindow a \<longrightarrow> clamp a = a)"
  by (auto simp add: clamp_def Let_def validWindow_def min_def max_def)

theorem clamp_idempotent_witness:
  "validWindow (eastArgs house0) \<and> clamp (eastArgs house0) = eastArgs house0 \<and>
   clamp (clamp (southArgs (house0\<lparr>winSouth := \<lparr>w = 10, h = 2, sill = 2, center = 0\<rparr>\<rparr>))) =
   clamp (southArgs (house0\<lparr>winSouth := \<lparr>w = 10, h = 2, sill = 2, center = 0\<rparr>\<rparr>))"
proof -
  have v: "validWindow (eastArgs house0)"
    by (simp add: validWindow_def house)
  show ?thesis
    using v clamp_idempotent [of "eastArgs house0"]
      clamp_idempotent [of "southArgs (house0\<lparr>winSouth := \<lparr>w = 10, h = 2, sill = 2, center = 0\<rparr>\<rparr>)"]
    by simp
qed

subsection \<open>The tiling of the face\<close>

lemma lower_rect:
  "map (faceRect (axis a)) (opt_list (lowerBox wm a)) =
     (if lowerH a > eps then [lowerRect a] else [])"
  by (simp add: lowerBox_def opt_list_def boxes lowerRect_def locals)

lemma upper_rect:
  "map (faceRect (axis a)) (opt_list (upperBox wm a)) =
     (if upperH a > eps then [upperRect a] else [])"
  by (simp add: upperBox_def opt_list_def boxes upperRect_def locals Let_def)

lemma left_rect:
  "map (faceRect (axis a)) (opt_list (leftBox wm a)) =
     (if leftW a > eps then [leftRect a] else [])"
  by (simp add: leftBox_def opt_list_def boxes leftRect_def locals Let_def field_simps)

lemma right_rect:
  "map (faceRect (axis a)) (opt_list (rightBox wm a)) =
     (if rightW a > eps then [rightRect a] else [])"
  by (simp add: rightBox_def opt_list_def boxes rightRect_def locals Let_def field_simps)

lemma pieces_eq:
  "pieces wm a = aperture a #
     (if lowerH a > eps then [lowerRect a] else []) @
     (if upperH a > eps then [upperRect a] else []) @
     (if leftW a > eps then [leftRect a] else []) @
     (if rightW a > eps then [rightRect a] else [])"
  unfolding pieces_def segments_def map_append lower_rect upper_rect left_rect right_rect
  by (rule refl)

lemma tiles_inside: "fits a \<Longrightarrow> \<forall>r \<in> set (pieces wm a). inside r (face a)"
  unfolding pieces_eq
  by (auto simp add: fits_def inside_def rects locals eps_def)

lemma overlap_pairs:
  assumes "fits a"
  shows "overlap (aperture a) (lowerRect a) = 0" "overlap (aperture a) (upperRect a) = 0"
    "overlap (aperture a) (leftRect a) = 0" "overlap (aperture a) (rightRect a) = 0"
    "overlap (lowerRect a) (upperRect a) = 0" "overlap (lowerRect a) (leftRect a) = 0"
    "overlap (lowerRect a) (rightRect a) = 0" "overlap (upperRect a) (leftRect a) = 0"
    "overlap (upperRect a) (rightRect a) = 0" "overlap (leftRect a) (rightRect a) = 0"
  using assms by (simp_all add: fits_def overlap_def rects locals)

lemma tiles_noOverlap: "fits a \<Longrightarrow> noOverlap (pieces wm a)"
  unfolding pieces_eq by (simp add: overlap_pairs)

lemma cover_cases:
  assumes "fits a" and "near 0 (face a) p q"
  shows "near eps (aperture a) p q \<or> (eps < lowerH a \<and> near eps (lowerRect a) p q) \<or>
     (eps < upperH a \<and> near eps (upperRect a) p q) \<or>
     (eps < leftW a \<and> near eps (leftRect a) p q) \<or>
     (eps < rightW a \<and> near eps (rightRect a) p q)"
  using assms unfolding fits_def near_def rects locals eps_def
  by simp argo

lemma tiles_cover:
  assumes "fits a" and "near 0 (face a) p q"
  shows "\<exists>r \<in> set (pieces wm a). near eps r p q"
  using cover_cases [OF assms] unfolding pieces_eq by auto

lemma tiles_area: "sum_list (map area (pieces wm a)) + gap a = L a * H a"
  unfolding pieces_eq
  by (simp add: area_def gap_def rects locals eps_def algebra_simps)

lemma sliver:
  fixes u v :: real
  assumes "0 \<le> u" and "0 \<le> v" and "\<not> eps < v"
  shows "0 \<le> u * v" and "u * v \<le> eps * u"
proof -
  show "0 \<le> u * v" using assms by simp
  have "v \<le> eps" using assms by simp
  then have "u * v \<le> u * eps" using assms(1) by (rule mult_left_mono)
  then show "u * v \<le> eps * u" by (simp add: mult.commute)
qed

lemma tiles_gap:
  assumes "fits a"
  shows "0 \<le> gap a" and "gap a \<le> eps * (L a + 2 * winH a)"
proof -
  have l: "0 \<le> L a" and h: "0 \<le> winH a" and lo: "0 \<le> lowerH a" and up: "eps < upperH a"
    and le: "0 \<le> leftW a" and ri: "0 \<le> rightW a"
    using assms by (simp_all add: fits_def locals eps_def)
  have g: "gap a = (if lowerH a > eps then 0 else L a * lowerH a) +
     (if leftW a > eps then 0 else winH a * leftW a) +
     (if rightW a > eps then 0 else winH a * rightW a)"
    using up by (simp add: gap_def mult.commute)
  have 1: "0 \<le> (if lowerH a > eps then 0 else L a * lowerH a)"
       "(if lowerH a > eps then 0 else L a * lowerH a) \<le> eps * L a"
    using sliver [OF l lo] l by (auto simp: eps_def)
  have 2: "0 \<le> (if leftW a > eps then 0 else winH a * leftW a)"
       "(if leftW a > eps then 0 else winH a * leftW a) \<le> eps * winH a"
    using sliver [OF h le] h by (auto simp: eps_def)
  have 3: "0 \<le> (if rightW a > eps then 0 else winH a * rightW a)"
       "(if rightW a > eps then 0 else winH a * rightW a) \<le> eps * winH a"
    using sliver [OF h ri] h by (auto simp: eps_def)
  show "0 \<le> gap a" using g 1 2 3 by linarith
  show "gap a \<le> eps * (L a + 2 * winH a)" using g 1 2 3 by (simp add: algebra_simps)
qed

lemma clamp_fits:
  assumes "0 \<le> winW (clamp a)" and "0 \<le> winH (clamp a)"
    and "- halfL a \<le> winLeft (clamp a)" and "winRight (clamp a) \<le> halfL a"
  shows "fits (clamp a)"
  using assms by (simp add: fits_def clamp_def Let_def locals min_def max_def)

text \<open>
  C1, as stated, fails: the offset of the window along the wall is not clamped. On
  the south wall of the default house (\<open>L = 4\<close>, \<open>H = 3\<close>) a window
  \<open>{w: 2, h: 1, sill: 1, center: 10}\<close> gives a Left box 11 long and no Right box;
  the areas of the pieces add up to 21, the face has 12.
\<close>

theorem tiling_counterexample:
  "sum_list (map area (pieces ()
      (clamp (southArgs (house0\<lparr>winSouth := \<lparr>w = 2, h = 1, sill = 1, center = 10\<rparr>\<rparr>))))) = 21 \<and>
   L (southArgs (house0\<lparr>winSouth := \<lparr>w = 2, h = 1, sill = 1, center = 10\<rparr>\<rparr>)) *
   H (southArgs (house0\<lparr>winSouth := \<lparr>w = 2, h = 1, sill = 1, center = 10\<rparr>\<rparr>)) = 12 \<and>
   \<not> tiles () (clamp (southArgs (house0\<lparr>winSouth := \<lparr>w = 2, h = 1, sill = 1, center = 10\<rparr>\<rparr>)))"
  by (simp add: tiles_def pieces_eq house clamp_def Let_def locals eps_def rects area_def
      gap_def inside_def)

text \<open>
  C1, amended. When the clamped window has a width and a height that are not
  negative and its span along the wall lies within the wall, the window opening and
  the rectangles of the emitted Lower, Upper, Left and Right boxes tile the
  \<open>L\<close> by \<open>H\<close> face: each lies within the face, no two share area, every point of
  the face is within \<open>0.001\<close> of one of them, and their areas add up to \<open>L * H\<close> less
  the area of the skipped strips, which is at most \<open>0.001 * (L + 2 * winH')\<close>.
\<close>

theorem tiling:
  assumes "0 \<le> winW (clamp a)" and "0 \<le> winH (clamp a)"
    and "- halfL a \<le> winLeft (clamp a)" and "winRight (clamp a) \<le> halfL a"
  shows "tiles wm (clamp a)"
proof -
  have f: "fits (clamp a)" using assms by (rule clamp_fits)
  show ?thesis
    unfolding tiles_def
    by (simp add: tiles_inside [OF f] tiles_noOverlap [OF f] tiles_cover [OF f] tiles_area
        tiles_gap [OF f])
qed

theorem tiling_witness:
  "tiles () (clamp (eastArgs house0)) \<and>
   pieces () (clamp (eastArgs house0)) =
     [\<lparr>lo_a = -1.2, hi_a = 1.2, lo_y = -0.6, hi_y = 0.6\<rparr>,
      \<lparr>lo_a = -3, hi_a = 3, lo_y = -1.5, hi_y = -0.6\<rparr>,
      \<lparr>lo_a = -3, hi_a = 3, lo_y = 0.6, hi_y = 1.5\<rparr>,
      \<lparr>lo_a = -3, hi_a = -1.2, lo_y = -0.6, hi_y = 0.6\<rparr>,
      \<lparr>lo_a = 1.2, hi_a = 3, lo_y = -0.6, hi_y = 0.6\<rparr>]"
proof
  show "tiles () (clamp (eastArgs house0))"
    by (rule tiling) (simp_all add: house clamp_def Let_def locals)
  show "pieces () (clamp (eastArgs house0)) =
     [\<lparr>lo_a = -1.2, hi_a = 1.2, lo_y = -0.6, hi_y = 0.6\<rparr>,
      \<lparr>lo_a = -3, hi_a = 3, lo_y = -1.5, hi_y = -0.6\<rparr>,
      \<lparr>lo_a = -3, hi_a = 3, lo_y = 0.6, hi_y = 1.5\<rparr>,
      \<lparr>lo_a = -3, hi_a = -1.2, lo_y = -0.6, hi_y = 0.6\<rparr>,
      \<lparr>lo_a = 1.2, hi_a = 3, lo_y = -0.6, hi_y = 0.6\<rparr>]"
    by (simp add: pieces_eq house clamp_def Let_def locals eps_def rects)
qed

subsection \<open>Which boxes a wall has\<close>

lemma emitted_iff:
  "lowerBox wm a \<noteq> None \<longleftrightarrow> eps < lowerH a"
  "upperBox wm a \<noteq> None \<longleftrightarrow> eps < upperH a"
  "leftBox wm a \<noteq> None \<longleftrightarrow> eps < leftW a"
  "rightBox wm a \<noteq> None \<longleftrightarrow> eps < rightW a"
  by (simp_all add: lowerBox_def upperBox_def leftBox_def rightBox_def Let_def)

lemma emitted_extent:
  "lowerBox wm a = Some b \<Longrightarrow> sy b = lowerH a \<and> eps < sy b"
  "upperBox wm a = Some b \<Longrightarrow> sy b = upperH a \<and> eps < sy b"
  "leftBox wm a = Some b \<Longrightarrow> alongSize (axis a) b = leftW a \<and> eps < alongSize (axis a) b"
  "rightBox wm a = Some b \<Longrightarrow> alongSize (axis a) b = rightW a \<and> eps < alongSize (axis a) b"
  by (auto simp add: lowerBox_def upperBox_def leftBox_def rightBox_def Let_def boxes
      split: if_splits)

lemma emitted_sizes:
  assumes "0 < L a" and "0 < T a" and "0 < winH a"
  shows "\<forall>b \<in> set (segments wm a). 0 < sx b \<and> 0 < sy b \<and> 0 < sz b"
  using assms
  by (auto simp add: segments_def opt_list_def lowerBox_def upperBox_def leftBox_def rightBox_def
      Let_def boxes eps_def split: if_splits)

lemma emission:
  "(lowerBox wm c \<noteq> None \<longleftrightarrow> eps < lowerH c) \<and>
   (upperBox wm c \<noteq> None \<longleftrightarrow> eps < upperH c) \<and>
   (leftBox wm c \<noteq> None \<longleftrightarrow> eps < leftW c) \<and>
   (rightBox wm c \<noteq> None \<longleftrightarrow> eps < rightW c) \<and>
   (\<forall>b. lowerBox wm c = Some b \<longrightarrow> sy b = lowerH c \<and> eps < sy b) \<and>
   (\<forall>b. upperBox wm c = Some b \<longrightarrow> sy b = upperH c \<and> eps < sy b) \<and>
   (\<forall>b. leftBox wm c = Some b \<longrightarrow>
      alongSize (axis c) b = leftW c \<and> eps < alongSize (axis c) b) \<and>
   (\<forall>b. rightBox wm c = Some b \<longrightarrow>
      alongSize (axis c) b = rightW c \<and> eps < alongSize (axis c) b) \<and>
   (0 < L c \<and> 0 < T c \<and> 0 < winH c \<longrightarrow>
      (\<forall>b \<in> set (segments wm c). 0 < sx b \<and> 0 < sy b \<and> 0 < sz b))"
  using emitted_extent [of wm c] emitted_sizes [of c wm] emitted_iff [of wm c]
  by blast

lemma clamp_sill_pos: "eps < sill (clamp a) \<longleftrightarrow> eps < sill a"
  by (simp add: clamp_fields eps_def min_def max_def)

lemma upper_always: "eps < upperH (clamp a)"
  by (simp add: clamp_def Let_def locals eps_def min_def max_def)

text \<open>
  C4, as stated, fails in its last part: each block tests one extent only, and the
  other edge lengths of the box are taken as they come. On the east wall of the
  default house a window of height 0 gives a Left box of height 0, and a room of
  height 0.1 (where the clamp makes the window height \<open>-0.1\<close>) gives a Left box of
  height \<open>-0.1\<close>.
\<close>

theorem degenerate_box_counterexample:
  "map_option sy (leftBox ()
      (clamp (eastArgs (house0\<lparr>winEast := \<lparr>w = 2.4, h = 0, sill = 0.9, center = 0\<rparr>\<rparr>)))) = Some 0 \<and>
   map_option sy (leftBox () (clamp (eastArgs (house0\<lparr>height := 0.1\<rparr>)))) = Some (- 0.1)"
  by (simp add: leftBox_def house clamp_def Let_def locals eps_def boxes)

text \<open>
  C4, amended. A structural box (Lower, Upper, Left, Right) is emitted if and only
  if its computed extent (\<open>lowerH\<close>, \<open>upperH\<close>, \<open>leftW\<close>, \<open>rightW\<close>) is greater than
  \<open>0.001\<close>; an emitted box has that extent as its height (Lower, Upper) or as its
  length along the wall (Left, Right), so this edge is longer than \<open>0.001\<close>. The
  other edges are not tested: all three edges of every emitted box are positive
  when \<open>L\<close>, \<open>T\<close> and the clamped window height are positive.
\<close>

theorem emission_threshold:
  "(lowerBox wm (clamp a) \<noteq> None \<longleftrightarrow> eps < lowerH (clamp a)) \<and>
   (upperBox wm (clamp a) \<noteq> None \<longleftrightarrow> eps < upperH (clamp a)) \<and>
   (leftBox wm (clamp a) \<noteq> None \<longleftrightarrow> eps < leftW (clamp a)) \<and>
   (rightBox wm (clamp a) \<noteq> None \<longleftrightarrow> eps < rightW (clamp a)) \<and>
   (\<forall>b. lowerBox wm (clamp a) = Some b \<longrightarrow> sy b = lowerH (clamp a) \<and> eps < sy b) \<and>
   (\<forall>b. upperBox wm (clamp a) = Some b \<longrightarrow> sy b = upperH (clamp a) \<and> eps < sy b) \<and>
   (\<forall>b. leftBox wm (clamp a) = Some b \<longrightarrow>
      alongSize (axis a) b = leftW (clamp a) \<and> eps < alongSize (axis a) b) \<and>
   (\<forall>b. rightBox wm (clamp a) = Some b \<longrightarrow>
      alongSize (axis a) b = rightW (clamp a) \<and> eps < alongSize (axis a) b) \<and>
   (0 < L a \<and> 0 < T a \<and> 0 < winH (clamp a) \<longrightarrow>
      (\<forall>b \<in> set (segments wm (clamp a)). 0 < sx b \<and> 0 < sy b \<and> 0 < sz b))"
  using emission [of wm "clamp a"] unfolding clamp_fields(4-7) .

theorem emission_threshold_witness:
  "length (segments () (clamp (eastArgs house0))) = 4 \<and>
   list_all (\<lambda>b. 0 < sx b \<and> 0 < sy b \<and> 0 < sz b) (segments () (clamp (eastArgs house0))) \<and>
   map_option sy (lowerBox () (clamp (eastArgs house0))) = Some 0.9 \<and>
   lowerBox ()
     (clamp (eastArgs (house0\<lparr>winEast := \<lparr>w = 2.4, h = 1.2, sill = 0.001, center = 0\<rparr>\<rparr>))) = None"
  using emission_threshold [of "()" "eastArgs house0"]
    emission_threshold
      [of "()" "eastArgs (house0\<lparr>winEast := \<lparr>w = 2.4, h = 1.2, sill = 0.001, center = 0\<rparr>\<rparr>)"]
  by (simp add: house clamp_def Let_def locals eps_def segments_def opt_list_def lowerBox_def
      upperBox_def leftBox_def rightBox_def boxes)

text \<open>
  C6, as stated, fails. On the south wall of the default house (\<open>L = 4\<close>) a centred
  window of width \<open>3.8 = L - 0.2\<close> gives a Left and a Right box, each \<open>0.1\<close> long,
  which is more than \<open>0.001\<close>. And a centred window of width 3 (narrower than
  \<open>L - 0.2\<close> by more than \<open>0.2\<close>) with sill 0 has no Lower box.
\<close>

theorem margin_segments_counterexample:
  "map_option sx (leftBox ()
      (clamp (southArgs (house0\<lparr>winSouth := \<lparr>w = 3.8, h = 1.4, sill = 0.7, center = 0\<rparr>\<rparr>)))) = Some 0.1 \<and>
   map_option sx (rightBox ()
      (clamp (southArgs (house0\<lparr>winSouth := \<lparr>w = 3.8, h = 1.4, sill = 0.7, center = 0\<rparr>\<rparr>)))) = Some 0.1 \<and>
   (0.1::real) > eps \<and>
   lowerBox ()
      (clamp (southArgs (house0\<lparr>winSouth := \<lparr>w = 3.0, h = 1.4, sill = 0, center = 0\<rparr>\<rparr>))) = None"
  by (simp add: leftBox_def rightBox_def lowerBox_def house clamp_def Let_def locals eps_def boxes)

text \<open>
  C6, amended. A centred window exactly \<open>L - 0.2\<close> wide leaves \<open>leftW = rightW = 0.1\<close>,
  so both the Left and the Right box are emitted. A centred window narrower than
  \<open>L - 0.2\<close> by more than the margin \<open>0.2\<close> has the Upper, Left and Right boxes, and
  the Lower box exactly when the requested sill is greater than \<open>0.001\<close>.
\<close>

theorem margin_segments:
  "(winW a = L a - 0.2 \<and> offsetAlong a = 0 \<longrightarrow>
      leftW (clamp a) = 0.1 \<and> rightW (clamp a) = 0.1 \<and>
      leftBox wm (clamp a) \<noteq> None \<and> rightBox wm (clamp a) \<noteq> None) \<and>
   (winW a < L a - 0.2 - 0.2 \<and> offsetAlong a = 0 \<longrightarrow>
      upperBox wm (clamp a) \<noteq> None \<and> leftBox wm (clamp a) \<noteq> None \<and>
      rightBox wm (clamp a) \<noteq> None \<and>
      (lowerBox wm (clamp a) \<noteq> None \<longleftrightarrow> eps < sill a))"
proof (intro conjI impI)
  assume h: "winW a = L a - 0.2 \<and> offsetAlong a = 0"
  then show l: "leftW (clamp a) = 0.1" and r: "rightW (clamp a) = 0.1"
    by (simp_all add: clamp_def Let_def locals field_simps)
  show "leftBox wm (clamp a) \<noteq> None" using l by (simp add: leftBox_def eps_def Let_def)
  show "rightBox wm (clamp a) \<noteq> None" using r by (simp add: rightBox_def eps_def Let_def)
next
  assume h: "winW a < L a - 0.2 - 0.2 \<and> offsetAlong a = 0"
  show "upperBox wm (clamp a) \<noteq> None"
    using upper_always [of a] by (simp add: upperBox_def Let_def)
  have "eps < leftW (clamp a)" "eps < rightW (clamp a)"
    using h by (simp_all add: clamp_def Let_def locals eps_def)
  then show "leftBox wm (clamp a) \<noteq> None" "rightBox wm (clamp a) \<noteq> None"
    by (simp_all add: leftBox_def rightBox_def Let_def)
  have "lowerH (clamp a) = sill (clamp a)" by (simp add: locals)
  then show "lowerBox wm (clamp a) \<noteq> None \<longleftrightarrow> eps < sill a"
    using clamp_sill_pos [of a] by (simp add: lowerBox_def)
qed

theorem margin_segments_witness:
  "leftW (clamp (southArgs (house0\<lparr>winSouth := \<lparr>w = 3.8, h = 1.4, sill = 0.7, center = 0\<rparr>\<rparr>))) = 0.1 \<and>
   rightW (clamp (southArgs (house0\<lparr>winSouth := \<lparr>w = 3.8, h = 1.4, sill = 0.7, center = 0\<rparr>\<rparr>))) = 0.1 \<and>
   length (segments () (clamp (southArgs house0))) = 4"
  using margin_segments
      [of "southArgs (house0\<lparr>winSouth := \<lparr>w = 3.8, h = 1.4, sill = 0.7, center = 0\<rparr>\<rparr>)" "()"]
    margin_segments [of "southArgs house0" "()"]
  by (auto simp add: house eps_def segments_def opt_list_def)

subsection \<open>The glass pane\<close>

text \<open>
  C7. For every input the pane is a box of height \<open>winH'\<close> whose edge along the wall
  is \<open>winW'\<close> and whose edge across the wall is \<open>0.02\<close> (\<open>sx\<close> and \<open>sz\<close> swap with
  the axis); it is centred at \<open>offsetAlong\<close> along the wall, at
  \<open>yWinBottom + winH' / 2\<close> in height, and at the outward normal times
  \<open>T / 2 - 0.02 / 2\<close> across the wall. It is the last child of the wall group.
\<close>

theorem pane_geometry:
  "glass gm (clamp a) =
     (if axis a = ''x'' then
        \<lparr>sx = min (winW a) (L a - 0.2), sy = min (winH a) (H a - 0.2), sz = 0.02,
         material = gm,
         position = \<lparr>x = offsetAlong a,
                     y = yWinBottom (clamp a) + min (winH a) (H a - 0.2) / 2,
                     z = z (outwardNormal a) * (T a / 2 - 0.02 / 2)\<rparr>,
         castShadow = False, receiveShadow = True\<rparr>
      else
        \<lparr>sx = 0.02, sy = min (winH a) (H a - 0.2), sz = min (winW a) (L a - 0.2),
         material = gm,
         position = \<lparr>x = x (outwardNormal a) * (T a / 2 - 0.02 / 2),
                     y = yWinBottom (clamp a) + min (winH a) (H a - 0.2) / 2,
                     z = offsetAlong a\<rparr>,
         castShadow = False, receiveShadow = True\<rparr>) \<and>
   yWinBottom (clamp a) = - H a / 2 + sill (clamp a) \<and>
   wallGroup wm gm a =
     Group (center a) (map Mesh (segments wm (clamp a)) @ [Mesh (glass gm (clamp a))])"
  by (simp add: glass_def glassT_def wallGroup_def Let_def boxes locals clamp_fields)

text \<open>
  C9. The pane does not cast a shadow; every structural box of a windowed wall and
  both plain walls cast and receive shadows.
\<close>

theorem shadow_flags:
  "\<not> castShadow (glass gm a) \<and>
   (\<forall>b \<in> set (segments wm a). castShadow b \<and> receiveShadow b) \<and>
   castShadow (westWall c) \<and> receiveShadow (westWall c) \<and>
   castShadow (northWall c) \<and> receiveShadow (northWall c)"
  by (auto simp add: glass_def Let_def segments_def opt_list_def lowerBox_def upperBox_def
      leftBox_def rightBox_def westWall_def northWall_def boxes split: if_splits)

theorem shadow_flags_witness:
  "length (segments () (clamp (southArgs house0))) = 4 \<and>
   list_all (\<lambda>b. castShadow b \<and> receiveShadow b) (segments () (clamp (southArgs house0))) \<and>
   \<not> castShadow (glass () (clamp (southArgs house0)))"
  using shadow_flags [of "()" "clamp (southArgs house0)" "()" house0]
  by (simp add: house clamp_def Let_def locals eps_def segments_def opt_list_def lowerBox_def
      upperBox_def leftBox_def rightBox_def boxes)

subsection \<open>The offset along the wall\<close>

text \<open>
  C10. The clamp changes \<open>winW\<close>, \<open>winH\<close> and \<open>sill\<close> and nothing else; the window
  centre is the offset as given, and the window spans \<open>offsetAlong\<close> minus and plus
  half the clamped width. Any offset greater than \<open>L / 2 - winW' / 2\<close> puts the right
  edge of the opening beyond the wall's edge at \<open>L / 2\<close>, and any offset less than
  \<open>winW' / 2 - L / 2\<close> puts the left edge beyond \<open>- L / 2\<close>.
\<close>

theorem offset_unclamped:
  "clamp a = a\<lparr>winW := winW (clamp a), winH := winH (clamp a), sill := sill (clamp a)\<rparr> \<and>
   offsetAlong (clamp a) = offsetAlong a \<and>
   winCenter (clamp a) = offsetAlong a \<and>
   winLeft (clamp a) = offsetAlong a - winW (clamp a) / 2 \<and>
   winRight (clamp a) = offsetAlong a + winW (clamp a) / 2 \<and>
   (halfL a - winW (clamp a) / 2 < d \<longrightarrow> halfL a < winRight (clamp (a\<lparr>offsetAlong := d\<rparr>))) \<and>
   (d < winW (clamp a) / 2 - halfL a \<longrightarrow> winLeft (clamp (a\<lparr>offsetAlong := d\<rparr>)) < - halfL a)"
  by (simp add: clamp_def Let_def locals)

theorem offset_unclamped_witness:
  "halfL (southArgs house0) < winRight (clamp ((southArgs house0)\<lparr>offsetAlong := 10\<rparr>)) \<and>
   winLeft (clamp ((southArgs house0)\<lparr>offsetAlong := -10\<rparr>)) < - halfL (southArgs house0)"
  using offset_unclamped [of "southArgs house0" 10] offset_unclamped [of "southArgs house0" "-10"]
  by (simp add: house clamp_def Let_def locals)

subsection \<open>The floor\<close>

text \<open>
  C5, as stated, fails: the floor box is centred at \<open>y = floorT / 2\<close>, so its bottom
  face is at \<open>y = 0\<close> and its top face at \<open>y = floorT\<close>; in the default house the
  top is at \<open>0.12\<close>.
\<close>

theorem floor_top_counterexample:
  "y (position (floorBox house0)) + sy (floorBox house0) / 2 = 0.12 \<and>
   y (position (floorBox house0)) - sy (floorBox house0) / 2 = 0"
  by (simp add: floorBox_def house boxes)

text \<open>
  C5, amended. The floor is a box of size
  \<open>(width - 2 * wallT, floorT, depth - 2 * wallT)\<close> whose bottom face is at \<open>y = 0\<close>
  and whose top face is at \<open>y = floorT\<close>. It reaches from \<open>- width / 2 + wallT\<close> to
  \<open>width / 2 - wallT\<close> in \<open>x\<close> and from \<open>- depth / 2 + wallT\<close> to
  \<open>depth / 2 - wallT\<close> in \<open>z\<close>: its four edges are the inner faces of the four
  walls. It is the first child of the room.
\<close>

theorem floor_box:
  "sx (floorBox c) = width c - 2 * wallT c \<and>
   sy (floorBox c) = floorT c \<and>
   sz (floorBox c) = depth c - 2 * wallT c \<and>
   y (position (floorBox c)) - sy (floorBox c) / 2 = 0 \<and>
   y (position (floorBox c)) + sy (floorBox c) / 2 = floorT c \<and>
   x (position (floorBox c)) - sx (floorBox c) / 2 = - width c / 2 + wallT c \<and>
   x (position (floorBox c)) + sx (floorBox c) / 2 = width c / 2 - wallT c \<and>
   z (position (floorBox c)) - sz (floorBox c) / 2 = - depth c / 2 + wallT c \<and>
   z (position (floorBox c)) + sz (floorBox c) / 2 = depth c / 2 - wallT c \<and>
   x (position (westWall c)) + sx (westWall c) / 2 =
     x (position (floorBox c)) - sx (floorBox c) / 2 \<and>
   z (position (northWall c)) + sz (northWall c) / 2 =
     z (position (floorBox c)) - sz (floorBox c) / 2 \<and>
   x (center (eastArgs c)) - T (eastArgs c) / 2 =
     x (position (floorBox c)) + sx (floorBox c) / 2 \<and>
   z (center (southArgs c)) - T (southArgs c) / 2 =
     z (position (floorBox c)) + sz (floorBox c) / 2 \<and>
   (\<exists>rest. makeHouse c = Group (vec 0 0 0) (Mesh (floorBox c) # rest))"
  by (simp add: floorBox_def westWall_def northWall_def eastArgs_def southArgs_def makeHouse_def
      buildWallWithWindow_def boxes Let_def field_simps)

end
